theory Spec2Isabelle
  imports Complex_Main "HOL-Library.Sublist"
begin

section \<open>The Runner of util/runner.py\<close>

text \<open>
  The training harness is modelled as it is written: the configuration dictionary is a
  record of its recognised keys, Python integers are \<open>int\<close> (Python's \<open>%\<close> and \<open>//\<close>
  on integers are \<open>mod\<close> and \<open>div\<close> on \<open>int\<close>, and a zero divisor raises), every
  exception is a value of \<open>error\<close>, and the calls made on the external collaborators
  (model wrapper, optimizer, scheduler, evaluator) are recorded, in order, in a trace.
  Logging (but for the file handler the constructor opens), wall-clock time, the device
  placement of tensors and the order in which the loader shuffles the examples are left
  out; what the model and the evaluator return is a parameter of every definition that
  calls them.
\<close>

datatype error =
    ZeroDivisionError
  | ValueError
  | TypeError
  | AttributeError
  | UnboundLocalError
  | FileNotFoundError
  | OSError
  | RuntimeError
  | NotImplementedError

record config =
  task :: string
  use_amp :: bool
  log_dir :: string
  batch_size :: int
  num_epochs :: int
  gradient_accumulation_steps :: int
  max_grad_norm :: "real option"
  optimizer :: string
  plm_learning_rate :: real
  task_learning_rate :: real
  adam_weight_decay :: real
  adam_eps :: real
  plm_scheduler :: string
  task_scheduler :: string
  warmup_ratio :: real
  report_frequency :: int
  eval_frequency :: int

subsection \<open>Floating-point arithmetic\<close>

text \<open>
  A float is the real number it denotes, and losses and scores have type \<open>real\<close>; the
  comparison of two scores is exact. The arithmetic is not: each operation the code
  performs on floats is a parameter, the function from the operands to the float the
  machine returns, and no property of it is assumed. \<open>quotient\<close> is line 152, the
  division of the loss tensor by \<open>grad_accum\<close> as \<open>loss.item()\<close> reads it back;
  \<open>np_sum\<close> is \<open>np.sum\<close> of a list of floats (line 175); \<open>float_add\<close> is \<open>+\<close> (line
  177); \<open>float_div\<close> is \<open>/\<close> of a float by an integer (line 183); \<open>float_mul\<close> is
  \<open>*\<close> of an integer and a float (line 287). Infinities and values that are not
  numbers are left out.
\<close>

record float_ops =
  quotient :: "real \<Rightarrow> int \<Rightarrow> real"
  np_sum :: "real list \<Rightarrow> real"
  float_add :: "real \<Rightarrow> real \<Rightarrow> real"
  float_div :: "real \<Rightarrow> int \<Rightarrow> real"
  float_mul :: "int \<Rightarrow> real \<Rightarrow> real"

subsection \<open>The epoch loop of \<open>Runner.train\<close> (lines 125 to 212)\<close>

datatype split = Dev | Test | Seen | Unseen | Train

text \<open>
  One event per call on a collaborator: \<open>Forward n\<close> is the \<open>n\<close>-th forward pass
  \<open>wrapper(**example_gpu)\<close> of the run, \<open>ClipGradNorm\<close> the pair of
  \<open>clip_grad_norm_\<close> calls, \<open>Report step avg\<close> the report line, \<open>Evaluate s step\<close> a
  call \<open>self.evaluate(wrapper, examples_s, stored_info, step)\<close>, and
  \<open>SaveModelCheckpoint step epo\<close> a call of \<open>self.save_model_checkpoint\<close>.
\<close>

datatype event =
    Forward nat
  | Backward
  | ClipGradNorm
  | OptimizerStep
  | SchedulerStep
  | ZeroGrad
  | Report int real
  | Evaluate split int
  | SaveModelCheckpoint int int

text \<open>
  The local variables of \<open>train\<close> and the scheduler's counter
  \<open>self.scheduler._step_count\<close>. \<open>forward_calls\<close> and \<open>dev_scores\<close> are ghost fields:
  the number of mini-batches processed so far and the scores the dev evaluations have
  returned so far, oldest first.
\<close>

record loop_state =
  step_count :: int
  loss_during_accum :: "real list"
  loss_during_report :: real
  loss_history :: "real list"
  max_f1 :: real
  max_f1_test :: real
  best_ckpt_step_count :: int
  forward_calls :: nat
  dev_scores :: "real list"
  trace :: "event list"

text \<open>
  Lines 125 to 131. The scheduler is the one \<open>get_scheduler\<close> has just built when
  \<open>continued\<close> is false and the one \<open>load_model_checkpoint\<close> restored when it is true;
  \<open>s0\<close> is the value its counter holds on entry (the value line 123 logs as the
  starting step).
\<close>

definition init_state :: "int \<Rightarrow> loop_state" where
  "init_state s0 =
     \<lparr>step_count = s0, loss_during_accum = [], loss_during_report = 0,
      loss_history = [], max_f1 = 0, max_f1_test = 0, best_ckpt_step_count = 0,
      forward_calls = 0, dev_scores = [], trace = [ZeroGrad]\<rparr>"

text \<open>Lines 181 to 191: the report (the wall-clock throughput is left out).\<close>

definition report :: "float_ops \<Rightarrow> config \<Rightarrow> loop_state \<Rightarrow> error + loop_state" where
  "report fl cfg st =
     (if report_frequency cfg = 0 then Inl ZeroDivisionError
      else if step_count st mod report_frequency cfg = 0 then
        Inr (st\<lparr>loss_during_report := 0,
                trace := trace st @
                  [Report (step_count st)
                     (float_div fl (loss_during_report st) (report_frequency cfg))]\<rparr>)
      else Inr st)"

text \<open>
  Lines 194 to 212: the dev evaluation and the model selection. \<open>dev_f1 n\<close> is what the
  \<open>n\<close>-th dev evaluation of the run returns as its score, or the exception it raises
  (\<open>Runner.evaluate\<close> itself raises \<open>NotImplementedError\<close>; a task's runner overrides
  it).
\<close>

definition evaluate_dev ::
  "config \<Rightarrow> (nat \<Rightarrow> error + real) \<Rightarrow> int \<Rightarrow> loop_state \<Rightarrow> error + loop_state" where
  "evaluate_dev cfg dev_f1 epo st =
     (if eval_frequency cfg = 0 then Inl ZeroDivisionError
      else if step_count st mod eval_frequency cfg = 0 then
        (case dev_f1 (length (dev_scores st)) of
           Inl e \<Rightarrow> Inl e
         | Inr f1 \<Rightarrow>
             (let st1 = st\<lparr>dev_scores := dev_scores st @ [f1],
                          trace := trace st @ [Evaluate Dev (step_count st)]\<rparr>
              in if f1 > max_f1 st1 then
                   Inr (st1\<lparr>max_f1 := max (max_f1 st1) f1,
                            max_f1_test := 0,
                            best_ckpt_step_count := step_count st1,
                            trace := trace st1 @
                              [SaveModelCheckpoint (step_count st1) epo]\<rparr>)
                 else Inr st1))
      else Inr st)"

definition Runner_evaluate :: "nat \<Rightarrow> error + real" where
  "Runner_evaluate n = Inl NotImplementedError"

text \<open>Lines 159 to 178: the update at the end of an accumulation window.\<close>

definition update :: "float_ops \<Rightarrow> config \<Rightarrow> loop_state \<Rightarrow> loop_state" where
  "update fl cfg st =
     (let clip = (case max_grad_norm cfg of
                    None \<Rightarrow> []
                  | Some g \<Rightarrow> if g = 0 then [] else [ClipGradNorm]);
          effective_loss = np_sum fl (loss_during_accum st)
      in st\<lparr>step_count := step_count st + 1,
            loss_during_accum := [],
            loss_during_report := float_add fl (loss_during_report st) effective_loss,
            loss_history := loss_history st @ [effective_loss],
            trace := trace st @ clip @ [OptimizerStep, SchedulerStep, ZeroGrad]\<rparr>)"

text \<open>
  Lines 143 to 212: the body of the inner loop, for one mini-batch. \<open>model_loss n\<close> is
  the loss the wrapper returns at the \<open>n\<close>-th forward pass of the run.
\<close>

definition batch_body ::
  "float_ops \<Rightarrow> config \<Rightarrow> (nat \<Rightarrow> real) \<Rightarrow> (nat \<Rightarrow> error + real) \<Rightarrow> int
     \<Rightarrow> loop_state \<Rightarrow> error + loop_state" where
  "batch_body fl cfg model_loss dev_f1 epo st =
     (let grad_accum = gradient_accumulation_steps cfg;
          loss = quotient fl (model_loss (forward_calls st)) grad_accum;
          st1 = st\<lparr>forward_calls := Suc (forward_calls st),
                   loss_during_accum := loss_during_accum st @ [loss],
                   trace := trace st @ [Forward (forward_calls st), Backward]\<rparr>
      in if grad_accum = 0 then Inl ZeroDivisionError
         else if int (length (loss_during_accum st1)) mod grad_accum = 0 then
           (case report fl cfg (update fl cfg st1) of
              Inl e \<Rightarrow> Inl e
            | Inr st2 \<Rightarrow> evaluate_dev cfg dev_f1 epo st2)
         else Inr st1)"

text \<open>
  The two nested loops, \<open>for epo in range(start_epoch, epochs)\<close> around
  \<open>for doc_key, example in trainloader\<close>, run the body once per pair of an epoch and a
  mini-batch, in order, and stop at the first exception. \<open>micro_steps\<close> runs the body
  over a list holding the epoch number of every mini-batch; \<open>epoch_loop\<close> builds that
  list from the epochs and the number of mini-batches the loader yields per epoch.
\<close>

fun micro_steps ::
  "float_ops \<Rightarrow> config \<Rightarrow> (nat \<Rightarrow> real) \<Rightarrow> (nat \<Rightarrow> error + real) \<Rightarrow> int list
     \<Rightarrow> loop_state \<Rightarrow> error + loop_state" where
  "micro_steps fl cfg model_loss dev_f1 [] st = Inr st"
| "micro_steps fl cfg model_loss dev_f1 (epo # es) st =
     (case batch_body fl cfg model_loss dev_f1 epo st of
        Inl e \<Rightarrow> Inl e
      | Inr st' \<Rightarrow> micro_steps fl cfg model_loss dev_f1 es st')"

definition schedule :: "int \<Rightarrow> int \<Rightarrow> nat \<Rightarrow> int list" where
  "schedule start_epoch epochs batches =
     concat (map (replicate batches) [start_epoch..epochs - 1])"

definition epoch_loop ::
  "float_ops \<Rightarrow> config \<Rightarrow> (nat \<Rightarrow> real) \<Rightarrow> (nat \<Rightarrow> error + real) \<Rightarrow> int \<Rightarrow> nat
     \<Rightarrow> loop_state \<Rightarrow> error + loop_state" where
  "epoch_loop fl cfg model_loss dev_f1 start_epoch batches st =
     micro_steps fl cfg model_loss dev_f1
       (schedule start_epoch (num_epochs cfg) batches) st"

text \<open>
  Lines 100 to 212 of \<open>train\<close>, for \<open>n_train\<close> training examples. Line 109 divides by
  \<open>grad_accum * batch_size\<close>; the \<open>DataLoader\<close> of line 133 refuses a batch size that
  is not positive and, shuffling, a collection with no example; with \<open>drop_last\<close> left
  at its default it yields \<open>ceil(n_train / batch_size)\<close> mini-batches per epoch.
\<close>

definition batches_per_epoch :: "nat \<Rightarrow> int \<Rightarrow> nat" where
  "batches_per_epoch n_train bs = nat ((int n_train + bs - 1) div bs)"

definition train_loop ::
  "float_ops \<Rightarrow> config \<Rightarrow> nat \<Rightarrow> (nat \<Rightarrow> real) \<Rightarrow> (nat \<Rightarrow> error + real) \<Rightarrow> int \<Rightarrow> int
     \<Rightarrow> error + loop_state" where
  "train_loop fl cfg n_train model_loss dev_f1 start_epoch s0 =
     (if gradient_accumulation_steps cfg * batch_size cfg = 0 then Inl ZeroDivisionError
      else if batch_size cfg \<le> 0 \<or> n_train = 0 then Inl ValueError
      else epoch_loop fl cfg model_loss dev_f1 start_epoch
             (batches_per_epoch n_train (batch_size cfg)) (init_state s0))"

text \<open>What a mini-batch added to the trace.\<close>

definition new_events :: "loop_state \<Rightarrow> loop_state \<Rightarrow> event list" where
  "new_events st st' = drop (length (trace st)) (trace st')"

subsection \<open>Observations on a run\<close>

text \<open>
  The losses of the \<open>j\<close>-th accumulation window of \<open>k\<close> mini-batches, each the
  model's loss divided by \<open>k\<close> as line 152 divides it.
\<close>

definition window_losses :: "float_ops \<Rightarrow> (nat \<Rightarrow> real) \<Rightarrow> nat \<Rightarrow> nat \<Rightarrow> real list" where
  "window_losses fl model_loss k j =
     map (\<lambda>i. quotient fl (model_loss i) (int k)) [j * k..<j * k + k]"

definition windows_inv ::
  "float_ops \<Rightarrow> (nat \<Rightarrow> real) \<Rightarrow> nat \<Rightarrow> int \<Rightarrow> loop_state \<Rightarrow> bool" where
  "windows_inv fl ml k s0 s \<longleftrightarrow>
     step_count s = s0 + int (forward_calls s div k) \<and>
     loss_history s =
       map (\<lambda>j. np_sum fl (window_losses fl ml k j)) [0..<forward_calls s div k] \<and>
     loss_during_accum s =
       map (\<lambda>i. quotient fl (ml i) (int k))
         [forward_calls s - forward_calls s mod k..<forward_calls s]"

fun is_step_or_eval :: "event \<Rightarrow> bool" where
  "is_step_or_eval OptimizerStep = True"
| "is_step_or_eval (Evaluate s n) = True"
| "is_step_or_eval e = False"

fun is_eval_or_save :: "event \<Rightarrow> bool" where
  "is_eval_or_save (Evaluate s n) = True"
| "is_eval_or_save (SaveModelCheckpoint n e) = True"
| "is_eval_or_save e = False"

definition observed :: "error + loop_state \<Rightarrow> error + event list" where
  "observed r = map_sum id (\<lambda>st. filter is_step_or_eval (trace st)) r"

definition batches_and_step :: "error + loop_state \<Rightarrow> error + nat \<times> int" where
  "batches_and_step r = map_sum id (\<lambda>st. (forward_calls st, step_count st)) r"

definition scores_and_saves :: "error + loop_state \<Rightarrow> error + real list \<times> event list" where
  "scores_and_saves r =
     map_sum id (\<lambda>st. (dev_scores st, filter is_eval_or_save (trace st))) r"

subsection \<open>Concrete inputs\<close>

definition scenario_cfg :: config where
  "scenario_cfg =
     \<lparr>task = ''ner'', use_amp = False, log_dir = ''logs'', batch_size = 2, num_epochs = 1,
      gradient_accumulation_steps = 1, max_grad_norm = Some 1, optimizer = ''adamw'',
      plm_learning_rate = 5 / 100000, task_learning_rate = 3 / 10000,
      adam_weight_decay = 1 / 100, adam_eps = 1 / 1000000,
      plm_scheduler = ''linear_with_warmup'', task_scheduler = ''linear_with_warmup'',
      warmup_ratio = 1 / 20, report_frequency = 100, eval_frequency = 2\<rparr>"

definition accum_cfg :: config where
  "accum_cfg = scenario_cfg\<lparr>gradient_accumulation_steps := 2\<rparr>"

definition unit_loss :: "nat \<Rightarrow> real" where
  "unit_loss n = real (Suc n)"

definition rising_f1 :: "nat \<Rightarrow> error + real" where
  "rising_f1 n = Inr (real (Suc n) / 10)"

text \<open>An evaluator whose scores are -2, -1, 0 and so on.\<close>

definition negative_f1 :: "nat \<Rightarrow> error + real" where
  "negative_f1 n = Inr (real n - 2)"

text \<open>
  Arithmetic without rounding. On the losses used below, whole numbers halved, every
  quotient and every sum is a multiple of one half of small size, which single and
  double precision hold exactly: there the floating-point operations are these.
\<close>

definition exact_ops :: float_ops where
  "exact_ops =
     \<lparr>quotient = (\<lambda>x k. x / real_of_int k), np_sum = sum_list, float_add = (+),
      float_div = (\<lambda>x k. x / real_of_int k), float_mul = (\<lambda>k x. real_of_int k * x)\<rparr>"

subsection \<open>Strings and paths\<close>

text \<open>
  \<open>str.lower()\<close> on ASCII letters, Python's substring test \<open>nd in n\<close>, the decimal
  text of an integer as an f-string formats it, and \<open>os.path.join\<close> of two components.
\<close>

definition lower_char :: "char \<Rightarrow> char" where
  "lower_char c =
     (case map_of (zip ''ABCDEFGHIJKLMNOPQRSTUVWXYZ'' ''abcdefghijklmnopqrstuvwxyz'') c of
        None \<Rightarrow> c
      | Some d \<Rightarrow> d)"

definition lower :: "string \<Rightarrow> string" where
  "lower s = map lower_char s"

fun contains :: "string \<Rightarrow> string \<Rightarrow> bool" where
  "contains nd [] = (nd = [])"
| "contains nd (c # cs) = (prefix nd (c # cs) \<or> contains nd cs)"

fun str_nat :: "nat \<Rightarrow> string" where
  "str_nat n =
     (if n < 10 then [''0123456789'' ! n]
      else str_nat (n div 10) @ [''0123456789'' ! (n mod 10)])"

definition str_int :: "int \<Rightarrow> string" where
  "str_int i = (if i < 0 then CHR ''-'' # str_nat (nat (- i)) else str_nat (nat i))"

definition join :: "string \<Rightarrow> string \<Rightarrow> string" where
  "join a b =
     (if b \<noteq> [] \<and> hd b = CHR ''/'' then b
      else if a = [] \<or> last a = CHR ''/'' then a @ b
      else a @ ''/'' @ b)"

text \<open>Python's \<open>+\<close> between a \<open>str\<close> and an \<open>int\<close> raises \<open>TypeError\<close>.\<close>

definition str_add_int :: "string \<Rightarrow> int \<Rightarrow> error + string" where
  "str_add_int s i = Inl TypeError"

text \<open>\<open>int(x)\<close> of a float truncates towards zero.\<close>

definition py_int :: "real \<Rightarrow> int" where
  "py_int x = (if x < 0 then \<lceil>x\<rceil> else \<lfloor>x\<rfloor>)"

subsection \<open>The collaborators\<close>

text \<open>
  A wrapper is what \<open>wrapper.get_params(named=True)\<close> gives of it: the named parameters
  of the pretrained encoder and those of the task head (the model classes are not under
  src/). \<open>'p\<close> is the type of a parameter. \<open>fusable\<close> tells whether all of them are
  floating-point tensors on a device for which the installed torch has a fused
  optimizer step.
\<close>

record 'p wrapper =
  plm_param :: "(string \<times> 'p) list"
  task_param :: "(string \<times> 'p) list"
  fusable :: bool

record 'p param_group =
  params :: "'p list"
  lr :: real
  weight_decay :: real

text \<open>
  torch's \<open>AdamW\<close>: its parameter groups, the keyword arguments it was built with, and
  its per-parameter state, a list of entries of type \<open>'s\<close> that is empty when the
  optimizer is new. An \<open>optimizer_state\<close> has the shape of what its \<open>state_dict()\<close>
  returns: the state and, per group, the hyperparameters and the number of parameters.
\<close>

record ('p, 's) adamw =
  param_groups :: "'p param_group list"
  default_lr :: real
  eps :: real
  fused :: bool
  opt_state :: "'s list"

record 's optimizer_state =
  sd_state :: "'s list"
  sd_param_groups :: "(real \<times> real \<times> nat) list"

text \<open>
  torch's \<open>LambdaLR\<close>: the lambdas it was built with, and the attributes its
  \<open>state_dict()\<close> holds, among them the counter \<open>_step_count\<close>.
\<close>

record scheduler_state =
  sched_step_count :: int
  last_epoch :: int
  last_lr :: "real list"

record scheduler =
  lr_lambdas :: "(int \<Rightarrow> real) list"
  sched_state :: scheduler_state

text \<open>
  What the code calls and src/ does not hold. \<open>get_scheduler_lambda\<close> is that function
  of \<open>util\<close>; \<open>LambdaLR\<close> gives the state a new scheduler starts in for the learning
  rates of the optimizer's groups; the other four are the methods \<open>state_dict\<close> and
  \<open>load_state_dict\<close> of torch's optimizer and of its scheduler. They are parameters:
  nothing is assumed of them but what a theorem states as a hypothesis.
\<close>

record ('p, 's) externals =
  get_scheduler_lambda :: "string \<Rightarrow> int \<Rightarrow> int \<Rightarrow> (int \<Rightarrow> real)"
  LambdaLR :: "real list \<Rightarrow> (int \<Rightarrow> real) list \<Rightarrow> scheduler_state"
  state_dict :: "('p, 's) adamw \<Rightarrow> 's optimizer_state"
  load_state_dict :: "('p, 's) adamw \<Rightarrow> 's optimizer_state \<Rightarrow> error + ('p, 's) adamw"
  sched_state_dict :: "scheduler \<Rightarrow> scheduler_state"
  sched_load_state_dict :: "scheduler \<Rightarrow> scheduler_state \<Rightarrow> scheduler"

text \<open>
  One instance of the four methods, after torch's documentation, for the concrete inputs:
  the optimizer's \<open>load_state_dict\<close> refuses a state whose groups do not match its own
  in number and size and otherwise takes over the state and the groups'
  hyperparameters; the scheduler's takes over the attributes.
\<close>

definition torch_state_dict :: "('p, 's) adamw \<Rightarrow> 's optimizer_state" where
  "torch_state_dict opt =
     \<lparr>sd_state = opt_state opt,
      sd_param_groups =
        map (\<lambda>g. (lr g, weight_decay g, length (params g))) (param_groups opt)\<rparr>"

definition torch_load_state_dict ::
  "('p, 's) adamw \<Rightarrow> 's optimizer_state \<Rightarrow> error + ('p, 's) adamw" where
  "torch_load_state_dict opt sd =
     (if map (\<lambda>g. length (params g)) (param_groups opt) \<noteq>
         map (\<lambda>h. snd (snd h)) (sd_param_groups sd)
      then Inl ValueError
      else Inr (opt\<lparr>param_groups :=
                       map (\<lambda>(g, h). g\<lparr>lr := fst h, weight_decay := fst (snd h)\<rparr>)
                         (zip (param_groups opt) (sd_param_groups sd)),
                     opt_state := sd_state sd\<rparr>))"

definition torch_sched_state_dict :: "scheduler \<Rightarrow> scheduler_state" where
  "torch_sched_state_dict sch = sched_state sch"

definition torch_sched_load_state_dict :: "scheduler \<Rightarrow> scheduler_state \<Rightarrow> scheduler" where
  "torch_sched_load_state_dict sch sd = sch\<lparr>sched_state := sd\<rparr>"

text \<open>
  The files the checkpoint code reads and writes: the checkpoint records \<open>torch.save\<close>
  wrote, by path, and what \<open>from_pretrained\<close> resolves a name to, a directory holding
  saved weights or the identifier of an external pretrained model.
\<close>

record 's checkpoint =
  current_epoch :: int
  optimizer_state_dict :: "'s optimizer_state"
  scheduler_state_dict :: scheduler_state

record ('p, 's) env =
  files :: "string \<rightharpoonup> 's checkpoint"
  pretrained :: "string \<rightharpoonup> 'p wrapper"

subsection \<open>\<open>Runner.__init__\<close> and \<open>initialize_model\<close>\<close>

datatype task_kind = Coref | NER | ERE

datatype device = CPU | GPU int

text \<open>
  The attributes of a Runner. An attribute that has not been assigned is \<open>None\<close>;
  reading it raises \<open>AttributeError\<close>. \<open>data\<close>, \<open>collate_fn\<close> and
  \<open>wrapper_class_fn\<close> hold the task whose data processor, collate function and wrapper
  class were chosen.
\<close>

record ('p, 's) runner =
  name :: string
  name_suffix :: string
  gpu_id :: "int option"
  seed :: "int option"
  config :: config
  device :: device
  self_use_amp :: bool
  data :: "task_kind option"
  collate_fn :: "task_kind option"
  wrapper_class_fn :: "task_kind option"
  self_optimizer :: "('p, 's) adamw option"
  self_scheduler :: "scheduler option"

text \<open>
  Lines 48 to 81. \<open>cfg\<close> is the configuration \<open>util.initialize_config\<close> loaded,
  \<open>now\<close> the formatted time of the call, and \<open>dir_exists\<close> tells which directories
  there are once the configuration is loaded. Lines 60 and 61 open, for appending, the
  file \<open>log_<now>.txt\<close> in the log directory: that creates the file and raises
  \<open>FileNotFoundError\<close> when the directory is not there (an empty \<open>log_dir\<close> is the
  current directory). Seeding is left out.
\<close>

definition Runner_init ::
  "(string \<Rightarrow> bool) \<Rightarrow> config \<Rightarrow> string \<Rightarrow> string \<Rightarrow> int option \<Rightarrow> int option
     \<Rightarrow> error + ('p, 's) runner" where
  "Runner_init dir_exists cfg config_name now gpu seed_arg =
     (let r = \<lparr>name = config_name, name_suffix = now, gpu_id = gpu, seed = seed_arg,
               config = cfg, device = (case gpu of None \<Rightarrow> CPU | Some g \<Rightarrow> GPU g),
               self_use_amp = use_amp cfg, data = None, collate_fn = None,
               wrapper_class_fn = None, self_optimizer = None, self_scheduler = None\<rparr>
      in if log_dir cfg \<noteq> [] \<and> \<not> dir_exists (log_dir cfg) then Inl FileNotFoundError
         else if lower (task cfg) = ''coref'' then
           Inr (r\<lparr>data := Some Coref, collate_fn := Some Coref,
                   wrapper_class_fn := Some Coref\<rparr>)
         else if lower (task cfg) = ''ner'' then
           Inr (r\<lparr>data := Some NER, collate_fn := Some NER, wrapper_class_fn := Some NER\<rparr>)
         else if lower (task cfg) = ''ere'' then
           Inr (r\<lparr>data := Some ERE, collate_fn := Some ERE, wrapper_class_fn := Some ERE\<rparr>)
         else Inr r)"

subsection \<open>\<open>get_optimizer\<close> and \<open>get_scheduler\<close>\<close>

definition no_decay :: "string list" where
  "no_decay = [''bias'', ''LayerNorm.weight'', ''layer_norm.weight'']"

definition any_no_decay :: "string \<Rightarrow> bool" where
  "any_no_decay n = list_ex (\<lambda>nd. contains nd n) no_decay"

text \<open>Lines 255 to 272.\<close>

definition grouped_param :: "config \<Rightarrow> 'p wrapper \<Rightarrow> 'p param_group list" where
  "grouped_param cfg w =
     [\<lparr>params = map snd (filter (\<lambda>np. \<not> any_no_decay (fst np)) (plm_param w)),
       lr = plm_learning_rate cfg, weight_decay = adam_weight_decay cfg\<rparr>,
      \<lparr>params = map snd (filter (\<lambda>np. any_no_decay (fst np)) (plm_param w)),
       lr = plm_learning_rate cfg, weight_decay = 0\<rparr>,
      \<lparr>params = map snd (task_param w),
       lr = task_learning_rate cfg, weight_decay = 0\<rparr>]"

text \<open>
  Lines 254 to 283. \<open>opt_class\<close> is bound only when the configured optimizer is
  \<open>adamw\<close>; reading it unbound, at line 276, raises \<open>UnboundLocalError\<close>. The
  constructor of \<open>AdamW\<close> refuses a negative \<open>lr\<close> and a negative \<open>eps\<close> with
  \<open>ValueError\<close> and, called with \<open>fused=True\<close>, parameters that are not fusable with
  \<open>RuntimeError\<close>.
\<close>

definition get_optimizer :: "config \<Rightarrow> 'p wrapper \<Rightarrow> error + ('p, 's) adamw" where
  "get_optimizer cfg w =
     (let grouped = grouped_param cfg w
      in if lower (optimizer cfg) \<noteq> ''adamw'' then Inl UnboundLocalError
         else if plm_learning_rate cfg < 0 \<or> adam_eps cfg < 0 then Inl ValueError
         else if \<not> fusable w then Inl RuntimeError
         else Inr \<lparr>param_groups = grouped, default_lr = plm_learning_rate cfg,
                   eps = adam_eps cfg, fused = True, opt_state = []\<rparr>)"

text \<open>
  Lines 285 to 299. \<open>LambdaLR\<close> refuses a list of lambdas whose length is not the number
  of the optimizer's groups.
\<close>

definition get_scheduler ::
  "float_ops \<Rightarrow> ('p, 's) externals \<Rightarrow> config \<Rightarrow> ('p, 's) adamw \<Rightarrow> int
     \<Rightarrow> error + scheduler" where
  "get_scheduler fl ext cfg opt total_update_steps =
     (let warmup_steps = py_int (float_mul fl total_update_steps (warmup_ratio cfg));
          lr_lambda_plm =
            get_scheduler_lambda ext (plm_scheduler cfg) warmup_steps total_update_steps;
          lr_lambda_task =
            get_scheduler_lambda ext (task_scheduler cfg) 0 total_update_steps;
          lambdas = [lr_lambda_plm, lr_lambda_plm, lr_lambda_task]
      in if length (param_groups opt) \<noteq> length lambdas then Inl ValueError
         else Inr \<lparr>lr_lambdas = lambdas,
                   sched_state = LambdaLR ext (map lr (param_groups opt)) lambdas\<rparr>)"

subsection \<open>\<open>save_model_checkpoint\<close> and \<open>load_model_checkpoint\<close>\<close>

text \<open>
  Lines 301 to 310: the record goes to \<open>model_<name_suffix>_<step>.bin\<close> in the log
  directory, and \<open>save_pretrained\<close> writes the model's weights into the log directory
  itself.
\<close>

definition save_model_checkpoint ::
  "('p, 's) externals \<Rightarrow> ('p, 's) runner \<Rightarrow> 'p wrapper \<Rightarrow> ('p, 's) adamw \<Rightarrow> scheduler
     \<Rightarrow> int \<Rightarrow> int \<Rightarrow> ('p, 's) env \<Rightarrow> ('p, 's) env" where
  "save_model_checkpoint ext r w opt sch step current e =
     (let path_ckpt =
            join (log_dir (config r))
              (''model_'' @ name_suffix r @ ''_'' @ str_int step @ ''.bin'')
      in e\<lparr>files := (files e)(path_ckpt \<mapsto>
                \<lparr>current_epoch = current, optimizer_state_dict = state_dict ext opt,
                 scheduler_state_dict = sched_state_dict ext sch\<rparr>),
            pretrained := (pretrained e)(log_dir (config r) \<mapsto> w)\<rparr>)"

text \<open>
  Lines 312 to 337, for a runner whose data processor holds \<open>n_train\<close> training
  examples. \<open>from_pretrained\<close> raises when the name resolves to no weights, and
  \<open>torch.load\<close> when the file is not there.
\<close>

definition load_model_checkpoint ::
  "float_ops \<Rightarrow> ('p, 's) externals \<Rightarrow> ('p, 's) runner \<Rightarrow> nat \<Rightarrow> ('p, 's) env
     \<Rightarrow> 'p wrapper \<Rightarrow> string \<Rightarrow> bool \<Rightarrow> error + ('p, 's) runner \<times> 'p wrapper \<times> int" where
  "load_model_checkpoint fl ext r n_train e w sfx continue_training =
     (let cfg = config r;
          path_ckpt = join (log_dir cfg) (''model_'' @ sfx @ ''.bin'');
          loaded = (if files e path_ckpt = None then pretrained e sfx
                    else pretrained e (log_dir cfg))
      in case loaded of
           None \<Rightarrow> Inl OSError
         | Some w' \<Rightarrow>
             if continue_training then
               (case files e path_ckpt of
                  None \<Rightarrow> Inl FileNotFoundError
                | Some checkpoint \<Rightarrow>
                    (case get_optimizer cfg w' of
                       Inl err \<Rightarrow> Inl err
                     | Inr opt \<Rightarrow>
                         if data r = None then Inl AttributeError
                         else if gradient_accumulation_steps cfg * batch_size cfg = 0
                         then Inl ZeroDivisionError
                         else
                           (case get_scheduler fl ext cfg opt
                                   (int n_train * num_epochs cfg div
                                      (gradient_accumulation_steps cfg * batch_size cfg)) of
                              Inl err \<Rightarrow> Inl err
                            | Inr sch \<Rightarrow>
                                (case load_state_dict ext opt
                                        (optimizer_state_dict checkpoint) of
                                   Inl err \<Rightarrow> Inl err
                                 | Inr opt' \<Rightarrow>
                                     Inr (r\<lparr>self_optimizer := Some opt',
                                             self_scheduler := Some
                                               (sched_load_state_dict ext sch
                                                  (scheduler_state_dict checkpoint))\<rparr>,
                                          w', current_epoch checkpoint)))))
             else Inr (r, w', - 1))"

text \<open>
  Lines 84 to 89. \<open>w\<close> is the wrapper the chosen wrapper class constructs; a suffix that
  is \<open>None\<close> or empty is falsy.
\<close>

definition initialize_model ::
  "float_ops \<Rightarrow> ('p, 's) externals \<Rightarrow> ('p, 's) runner \<Rightarrow> nat \<Rightarrow> ('p, 's) env
     \<Rightarrow> 'p wrapper \<Rightarrow> string option \<Rightarrow> bool
     \<Rightarrow> error + ('p, 's) runner \<times> 'p wrapper \<times> int" where
  "initialize_model fl ext r n_train e w saved_suffix continue_training =
     (case wrapper_class_fn r of
        None \<Rightarrow> Inl AttributeError
      | Some k \<Rightarrow>
          (case saved_suffix of
             None \<Rightarrow> Inr (r, w, 0)
           | Some s \<Rightarrow>
               if s = [] then Inr (r, w, 0)
               else load_model_checkpoint fl ext r n_train e w s continue_training))"

subsection \<open>\<open>Runner.train\<close> as a whole\<close>

text \<open>
  What the final evaluation does: \<open>EvaluateSplit s step\<close> is a call of
  \<open>self.evaluate\<close> on the examples of \<open>s\<close>, and \<open>MetricsFile path d\<close> the JSON file
  \<open>save_metrics2file\<close> writes at \<open>path\<close>, holding the dictionary \<open>d\<close>. \<open>'m\<close> is the
  type of a metrics report.
\<close>

datatype 'm final_output =
    EvaluateSplit split int
  | MetricsFile string "(string \<times> 'm) list"

text \<open>
  Lines 231 to 241. \<open>final_eval s\<close> is the metrics report the evaluator returns for the
  split \<open>s\<close>, or the exception it raises.
\<close>

definition final_evaluation ::
  "config \<Rightarrow> (split \<Rightarrow> error + 'm) \<Rightarrow> error + 'm final_output list" where
  "final_evaluation cfg final_eval =
     (case final_eval Test of
        Inl err \<Rightarrow> Inl err
      | Inr metrics \<Rightarrow>
     (case final_eval Seen of
        Inl err \<Rightarrow> Inl err
      | Inr seen_metrics \<Rightarrow>
     (case final_eval Unseen of
        Inl err \<Rightarrow> Inl err
      | Inr unseen_metrics \<Rightarrow>
     (case final_eval Train of
        Inl err \<Rightarrow> Inl err
      | Inr train_metrics \<Rightarrow>
          Inr [EvaluateSplit Test (- 1),
               MetricsFile (join (log_dir cfg) ''metrics.json'')
                 [(''test_metrics'', metrics)],
               EvaluateSplit Seen (- 1),
               MetricsFile (join (log_dir cfg) ''metricsSeen.json'')
                 [(''test_metrics'', seen_metrics)],
               EvaluateSplit Unseen (- 1),
               MetricsFile (join (log_dir cfg) ''metricsUnseen.json'')
                 [(''test_metrics'', unseen_metrics)],
               EvaluateSplit Train (- 1)]))))"

text \<open>Lines 100 to 123: what \<open>train\<close> does before the loop.\<close>

definition train_setup ::
  "float_ops \<Rightarrow> ('p, 's) externals \<Rightarrow> ('p, 's) runner \<Rightarrow> 'p wrapper \<Rightarrow> bool \<Rightarrow> nat
     \<Rightarrow> error + ('p, 's) runner" where
  "train_setup fl ext r w continued n_train =
     (let cfg = config r
      in if data r = None then Inl AttributeError
         else if gradient_accumulation_steps cfg * batch_size cfg = 0
         then Inl ZeroDivisionError
         else if continued then Inr r
         else
           (case get_optimizer cfg w of
              Inl err \<Rightarrow> Inl err
            | Inr opt \<Rightarrow>
                (case get_scheduler fl ext cfg opt
                        (int n_train * num_epochs cfg div
                           (gradient_accumulation_steps cfg * batch_size cfg)) of
                   Inl err \<Rightarrow> Inl err
                 | Inr sch \<Rightarrow>
                     Inr (r\<lparr>self_optimizer := Some opt, self_scheduler := Some sch\<rparr>))))"

text \<open>
  Lines 92 to 243. \<open>e\<close> is the file system as the loop leaves it. Line 230 builds the
  suffix of the best checkpoint with \<open>+\<close> from the run's suffix, a string, and
  \<open>best_ckpt_step_count\<close>, an integer.
\<close>

definition train ::
  "float_ops \<Rightarrow> ('p, 's) externals \<Rightarrow> ('p, 's) runner \<Rightarrow> ('p, 's) env \<Rightarrow> 'p wrapper \<Rightarrow> bool
     \<Rightarrow> int \<Rightarrow> nat \<Rightarrow> (nat \<Rightarrow> real) \<Rightarrow> (nat \<Rightarrow> error + real) \<Rightarrow> (split \<Rightarrow> error + 'm)
     \<Rightarrow> error + loop_state \<times> 'm final_output list" where
  "train fl ext r e w continued start_epoch n_train model_loss dev_f1 final_eval =
     (case train_setup fl ext r w continued n_train of
        Inl err \<Rightarrow> Inl err
      | Inr r1 \<Rightarrow>
     (case (self_scheduler r1, self_optimizer r1) of
        (Some sch, Some opt) \<Rightarrow>
          (case train_loop fl (config r1) n_train model_loss dev_f1 start_epoch
                  (sched_step_count (sched_state sch)) of
             Inl err \<Rightarrow> Inl err
           | Inr st \<Rightarrow>
          (case str_add_int (name_suffix r1 @ ''_'') (best_ckpt_step_count st) of
             Inl err \<Rightarrow> Inl err
           | Inr sfx \<Rightarrow>
          (case load_model_checkpoint fl ext r1 n_train e w sfx False of
             Inl err \<Rightarrow> Inl err
           | Inr loaded \<Rightarrow>
          (case final_evaluation (config r1) final_eval of
             Inl err \<Rightarrow> Inl err
           | Inr out \<Rightarrow> Inr (st, out)))))
      | _ \<Rightarrow> Inl AttributeError))"

subsection \<open>More concrete inputs\<close>

text \<open>
  The two encoder parameters of the scenario and one parameter of the task head;
  parameters are numbered.
\<close>

definition two_param_wrapper :: "nat wrapper" where
  "two_param_wrapper =
     \<lparr>plm_param = [(''encoder.layer.0.bias'', 1), (''encoder.layer.0.weight'', 2)],
      task_param = [(''classifier.weight'', 3)], fusable = True\<rparr>"

definition const_lambda :: "string \<Rightarrow> int \<Rightarrow> int \<Rightarrow> int \<Rightarrow> real" where
  "const_lambda kind warmup_steps total_steps n = 1"

definition new_lambda_lr :: "real list \<Rightarrow> (int \<Rightarrow> real) list \<Rightarrow> scheduler_state" where
  "new_lambda_lr lrs lambdas = \<lparr>sched_step_count = 1, last_epoch = 0, last_lr = lrs\<rparr>"

definition demo_ext :: "(nat, nat) externals" where
  "demo_ext =
     \<lparr>get_scheduler_lambda = const_lambda, LambdaLR = new_lambda_lr,
      state_dict = torch_state_dict, load_state_dict = torch_load_state_dict,
      sched_state_dict = torch_sched_state_dict,
      sched_load_state_dict = torch_sched_load_state_dict\<rparr>"

text \<open>Which directories there are: the log directory of the scenario and no other.\<close>

definition only_logs :: "string \<Rightarrow> bool" where
  "only_logs d = (d = ''logs'')"

definition ner_runner :: "(nat, nat) runner" where
  "ner_runner =
     \<lparr>name = ''ner'', name_suffix = ''Aug14_19-53-06'', gpu_id = Some 0, seed = None,
      config = scenario_cfg, device = GPU 0, self_use_amp = False, data = Some NER,
      collate_fn = Some NER, wrapper_class_fn = Some NER, self_optimizer = None,
      self_scheduler = None\<rparr>"


definition empty_env :: "(nat, nat) env" where
  "empty_env = \<lparr>files = Map.empty, pretrained = Map.empty\<rparr>"

text \<open>
  An optimizer and a scheduler as they are after the first optimizer step of a run whose
  scheduler started at 1, and the file system after the checkpoint of that step.
\<close>

definition trained_optimizer :: "(nat, nat) adamw" where
  "trained_optimizer =
     \<lparr>param_groups =
        [\<lparr>params = [2], lr = 1 / 100000, weight_decay = 1 / 100\<rparr>,
         \<lparr>params = [1], lr = 1 / 100000, weight_decay = 0\<rparr>,
         \<lparr>params = [3], lr = 3 / 10000, weight_decay = 0\<rparr>],
      default_lr = 5 / 100000, eps = 1 / 1000000, fused = True, opt_state = [7, 8, 9]\<rparr>"

definition trained_scheduler :: scheduler where
  "trained_scheduler =
     \<lparr>lr_lambdas = [const_lambda ''linear_with_warmup'' 0 2,
                     const_lambda ''linear_with_warmup'' 0 2,
                     const_lambda ''linear_with_warmup'' 0 2],
      sched_state = \<lparr>sched_step_count = 2, last_epoch = 1,
                      last_lr = [1 / 100000, 1 / 100000, 3 / 10000]\<rparr>\<rparr>"

definition saved_env :: "(nat, nat) env" where
  "saved_env =
     save_model_checkpoint demo_ext ner_runner two_param_wrapper trained_optimizer
       trained_scheduler 2 0 empty_env"

definition split_report :: "split \<Rightarrow> error + nat" where
  "split_report s =
     Inr (case s of Dev \<Rightarrow> 0 | Test \<Rightarrow> 10 | Seen \<Rightarrow> 20 | Unseen \<Rightarrow> 30 | Train \<Rightarrow> 40)"

text \<open>A configuration whose task is none of the three.\<close>

definition pos_cfg :: config where
  "pos_cfg = scenario_cfg\<lparr>task := ''pos''\<rparr>"

section \<open>Properties of the epoch loop\<close>

lemma micro_steps_append:
  "micro_steps fl cfg ml ev (es @ fs) st =
     (case micro_steps fl cfg ml ev es st of Inl e \<Rightarrow> Inl e | Inr st' \<Rightarrow> micro_steps fl cfg ml ev fs st')"
  by (induction es arbitrary: st) (auto split: sum.splits)

text \<open>
  Every point of a run is a run over a prefix of its mini-batches: a run over \<open>es @ fs\<close>
  that returns has passed through the state the run over \<open>es\<close> returns.
\<close>

lemma micro_steps_prefix:
  assumes "micro_steps fl cfg ml ev (es @ fs) st = Inr st''"
  shows "\<exists>st'. micro_steps fl cfg ml ev es st = Inr st' \<and> micro_steps fl cfg ml ev fs st' = Inr st''"
  using assms by (auto simp: micro_steps_append split: sum.splits)

lemma micro_steps_invariant:
  assumes "micro_steps fl cfg ml ev es st0 = Inr st"
    and "P st0"
    and "\<And>epo s s'. P s \<Longrightarrow> batch_body fl cfg ml ev epo s = Inr s' \<Longrightarrow> P s'"
  shows "P st"
  using assms(1,2)
proof (induction es arbitrary: st0)
  case Nil
  then show ?case by simp
next
  case (Cons epo es)
  then show ?case using assms(3) by (auto split: sum.splits)
qed

lemma running_best_snoc:
  "Max (set (0 # xs @ [f])) = max f (Max (set ((0::real) # xs)))"
proof -
  have "set (0 # xs @ [f]) = insert f (set (0 # xs))" by auto
  moreover have "Max (insert f (set (0 # xs))) = max f (Max (set (0 # xs)))"
    by (rule Max_insert) simp_all
  ultimately show ?thesis by simp
qed

lemma report_frame:
  assumes "report fl cfg s = Inr s'"
  shows "max_f1 s' = max_f1 s" "dev_scores s' = dev_scores s"
    "step_count s' = step_count s" "loss_history s' = loss_history s"
    "loss_during_accum s' = loss_during_accum s" "forward_calls s' = forward_calls s"
    "count_list (trace s') OptimizerStep = count_list (trace s) OptimizerStep"
  using assms by (auto simp: report_def split: if_splits)

lemma update_frame:
  "max_f1 (update fl cfg s) = max_f1 s" "dev_scores (update fl cfg s) = dev_scores s"
  "forward_calls (update fl cfg s) = forward_calls s"
  "step_count (update fl cfg s) = step_count s + 1"
  "loss_history (update fl cfg s) = loss_history s @ [np_sum fl (loss_during_accum s)]"
  "loss_during_accum (update fl cfg s) = []"
  "count_list (trace (update fl cfg s)) OptimizerStep = Suc (count_list (trace s) OptimizerStep)"
  by (auto simp: update_def Let_def split: option.splits)

lemma evaluate_dev_frame:
  assumes "evaluate_dev cfg ev epo s = Inr s'"
  shows "step_count s' = step_count s" "loss_history s' = loss_history s"
    "loss_during_accum s' = loss_during_accum s" "forward_calls s' = forward_calls s"
    "count_list (trace s') OptimizerStep = count_list (trace s) OptimizerStep"
  using assms by (auto simp: evaluate_dev_def Let_def split: if_splits sum.splits)

lemma evaluate_dev_max_f1:
  assumes "evaluate_dev cfg ev epo s = Inr s'"
    and "max_f1 s = Max (set (0 # dev_scores s))"
  shows "max_f1 s' = Max (set (0 # dev_scores s'))"
proof (cases "step_count s mod eval_frequency cfg = 0")
  case False
  then show ?thesis using assms by (auto simp: evaluate_dev_def split: if_splits)
next
  case True
  then obtain f1 where f1: "ev (length (dev_scores s)) = Inr f1"
    using assms(1) by (auto simp: evaluate_dev_def split: if_splits sum.splits)
  have scores: "dev_scores s' = dev_scores s @ [f1]"
    using assms(1) True f1 by (auto simp: evaluate_dev_def Let_def split: if_splits)
  have best: "max_f1 s' = (if f1 > max_f1 s then max (max_f1 s) f1 else max_f1 s)"
    using assms(1) True f1 by (auto simp: evaluate_dev_def Let_def split: if_splits)
  have "Max (set (0 # dev_scores s')) = max f1 (max_f1 s)"
    unfolding scores assms(2) by (rule running_best_snoc)
  then show ?thesis using best by (simp add: max_def)
qed

lemma body_cases:
  assumes "batch_body fl cfg ml ev epo s = Inr s'"
  obtains
    (accumulate) "s' = s\<lparr>forward_calls := Suc (forward_calls s),
        loss_during_accum := loss_during_accum s @
          [quotient fl (ml (forward_calls s)) (gradient_accumulation_steps cfg)],
        trace := trace s @ [Forward (forward_calls s), Backward]\<rparr>"
      "int (Suc (length (loss_during_accum s))) mod gradient_accumulation_steps cfg \<noteq> 0"
  | (step) s1 s2 where
      "s1 = s\<lparr>forward_calls := Suc (forward_calls s),
        loss_during_accum := loss_during_accum s @
          [quotient fl (ml (forward_calls s)) (gradient_accumulation_steps cfg)],
        trace := trace s @ [Forward (forward_calls s), Backward]\<rparr>"
      "int (Suc (length (loss_during_accum s))) mod gradient_accumulation_steps cfg = 0"
      "report fl cfg (update fl cfg s1) = Inr s2" "evaluate_dev cfg ev epo s2 = Inr s'"
  using assms
  by (auto simp: batch_body_def Let_def split: if_splits sum.splits)

lemma body_history_steps:
  assumes "batch_body fl cfg ml ev epo s = Inr s'"
    and "length (loss_history s) = count_list (trace s) OptimizerStep"
  shows "length (loss_history s') = count_list (trace s') OptimizerStep"
  using assms(1)
proof (cases rule: body_cases)
  case accumulate
  then show ?thesis using assms(2) by simp
next
  case (step s1 s2)
  then show ?thesis using assms(2)
    by (simp add: evaluate_dev_frame [OF step(4)] report_frame [OF step(3)] update_frame)
qed

lemma body_max_f1:
  assumes "batch_body fl cfg ml ev epo s = Inr s'"
    and "max_f1 s = Max (set (0 # dev_scores s))"
  shows "max_f1 s' = Max (set (0 # dev_scores s'))"
  using assms(1)
proof (cases rule: body_cases)
  case accumulate
  then show ?thesis using assms(2) by simp
next
  case (step s1 s2)
  have "max_f1 s2 = Max (set (0 # dev_scores s2))"
    using assms(2) step(1) by (simp add: report_frame [OF step(3)] update_frame)
  then show ?thesis by (rule evaluate_dev_max_f1 [OF step(4)])
qed

lemma windows_inv_init: "windows_inv fl ml k s0 (init_state s0)"
  by (simp add: windows_inv_def init_state_def)

lemma body_windows_inv:
  assumes k: "0 < k" "gradient_accumulation_steps cfg = int k"
    and body: "batch_body fl cfg ml ev epo s = Inr s'"
    and inv: "windows_inv fl ml k s0 s"
  shows "windows_inv fl ml k s0 s' \<and> forward_calls s' = Suc (forward_calls s)"
proof -
  define n where "n = forward_calls s"
  have len: "length (loss_during_accum s) = n mod k"
    using inv by (simp add: windows_inv_def n_def)
  have full: "int (Suc (length (loss_during_accum s))) mod gradient_accumulation_steps cfg = 0
      \<longleftrightarrow> Suc n mod k = 0"
    unfolding k(2) len using k(1)
    by (metis mod_Suc_eq of_nat_0 of_nat_eq_iff zmod_int)
  have lda: "loss_during_accum s @ [quotient fl (ml n) (gradient_accumulation_steps cfg)]
      = map (\<lambda>i. quotient fl (ml i) (int k)) [n - n mod k..<Suc n]"
    using inv by (simp add: windows_inv_def n_def k(2))
  from body show ?thesis
  proof (cases rule: body_cases)
    case accumulate
    then have nz: "Suc n mod k \<noteq> 0" using full by simp
    then have dv: "Suc n div k = n div k" and md: "Suc n mod k = Suc (n mod k)"
      by (simp_all add: div_Suc mod_Suc split: if_splits)
    have "Suc n - Suc (n mod k) = n - n mod k" by simp
    then show ?thesis
      using inv lda accumulate(1) dv md
      by (simp add: windows_inv_def n_def [symmetric])
  next
    case (step s1 s2)
    then have z: "Suc n mod k = 0" using full by simp
    then have dv: "Suc n div k = Suc (n div k)"
      by (simp add: div_Suc)
    have lo: "n - n mod k = n div k * k"
      by (simp add: minus_mod_eq_div_mult)
    have hi: "Suc n = n div k * k + k"
      using z dv by (metis add.commute div_mult_mod_eq mult_Suc add_0)
    have win: "loss_during_accum s1 = window_losses fl ml k (n div k)"
      using lda step(1) lo hi by (simp add: window_losses_def n_def [symmetric])
    have "windows_inv fl ml k s0 s'"
      using inv dv z win step(1)
      by (simp add: windows_inv_def evaluate_dev_frame [OF step(4)] report_frame [OF step(3)]
          update_frame n_def [symmetric])
    moreover have "forward_calls s' = Suc (forward_calls s)"
      using step(1)
      by (simp add: evaluate_dev_frame [OF step(4)] report_frame [OF step(3)] update_frame)
    ultimately show ?thesis by simp
  qed
qed

lemma micro_steps_windows_inv:
  assumes "0 < k" "gradient_accumulation_steps cfg = int k"
    and "micro_steps fl cfg ml ev es s = Inr s'"
    and "windows_inv fl ml k s0 s"
  shows "windows_inv fl ml k s0 s' \<and> forward_calls s' = forward_calls s + length es"
  using assms(3,4)
proof (induction es arbitrary: s)
  case Nil
  then show ?case by simp
next
  case (Cons epo es)
  from Cons.prems(1) obtain s1 where b: "batch_body fl cfg ml ev epo s = Inr s1"
    and r: "micro_steps fl cfg ml ev es s1 = Inr s'"
    by (auto split: sum.splits)
  from body_windows_inv [OF assms(1,2) b Cons.prems(2)] Cons.IH [OF r]
  show ?case by simp
qed

lemma schedule_scn: "schedule 0 1 2 = [0,0]"
  by (simp add: schedule_def numeral_2_eq_2)

lemma update_events:
  "\<exists>u. trace (update fl cfg s) = trace s @ u \<and> filter is_eval_or_save u = [] \<and>
       count_list u OptimizerStep = 1"
  by (simp add: update_def Let_def split: option.splits)

lemma report_events:
  assumes "report fl cfg s = Inr s'"
  shows "\<exists>r. trace s' = trace s @ r \<and> filter is_eval_or_save r = [] \<and>
       count_list r OptimizerStep = 0"
  using assms by (auto simp: report_def split: if_splits)

lemma evaluate_dev_events:
  assumes "evaluate_dev cfg ev epo s = Inr s'"
  shows "(dev_scores s' = dev_scores s \<and> trace s' = trace s) \<or>
     (\<exists>f1. ev (length (dev_scores s)) = Inr f1 \<and> dev_scores s' = dev_scores s @ [f1] \<and>
        trace s' = trace s @ Evaluate Dev (step_count s) #
          (if f1 > max_f1 s then [SaveModelCheckpoint (step_count s) epo] else []))"
proof (cases "step_count s mod eval_frequency cfg = 0")
  case False
  then have "s' = s" using assms by (simp add: evaluate_dev_def split: if_splits)
  then show ?thesis by simp
next
  case True
  then obtain f1 where f1: "ev (length (dev_scores s)) = Inr f1"
    using assms by (cases "ev (length (dev_scores s))") (simp_all add: evaluate_dev_def split: if_splits)
  have nz: "eval_frequency cfg \<noteq> 0"
    using assms by (auto simp: evaluate_dev_def split: if_splits)
  show ?thesis
  proof (cases "f1 > max_f1 s")
    case True
    with assms \<open>step_count s mod eval_frequency cfg = 0\<close> f1 nz
    have "s' = s\<lparr>dev_scores := dev_scores s @ [f1],
                trace := trace s @ [Evaluate Dev (step_count s)],
                max_f1 := max (max_f1 s) f1, max_f1_test := 0,
                best_ckpt_step_count := step_count s,
                trace := (trace s @ [Evaluate Dev (step_count s)]) @
                  [SaveModelCheckpoint (step_count s) epo]\<rparr>"
      by (simp add: evaluate_dev_def Let_def)
    then show ?thesis using f1 True by simp
  next
    case False
    with assms \<open>step_count s mod eval_frequency cfg = 0\<close> f1 nz
    have "s' = s\<lparr>dev_scores := dev_scores s @ [f1],
                trace := trace s @ [Evaluate Dev (step_count s)]\<rparr>"
      by (simp add: evaluate_dev_def Let_def)
    then show ?thesis using f1 False by simp
  qed
qed

lemma new_events_append: "trace s' = trace s @ new \<Longrightarrow> new_events s s' = new"
  by (simp add: new_events_def)

lemma body_eval:
  assumes "batch_body fl cfg ml ev epo st = Inr st'"
  shows "(dev_scores st' = dev_scores st \<and> filter is_eval_or_save (new_events st st') = []) \<or>
     (\<exists>f1. ev (length (dev_scores st)) = Inr f1 \<and> dev_scores st' = dev_scores st @ [f1] \<and>
        filter is_eval_or_save (new_events st st') =
          Evaluate Dev (step_count st') #
            (if f1 > max_f1 st then [SaveModelCheckpoint (step_count st') epo] else []))"
  using assms
proof (cases rule: body_cases)
  case accumulate
  then show ?thesis by (simp add: new_events_def)
next
  case (step s1 s2)
  obtain u where u: "trace (update fl cfg s1) = trace s1 @ u" "filter is_eval_or_save u = []"
    using update_events by blast
  obtain r where r: "trace s2 = trace (update fl cfg s1) @ r" "filter is_eval_or_save r = []"
    using report_events [OF step(3)] by blast
  have t2: "trace s2 = trace st @ [Forward (forward_calls st), Backward] @ u @ r"
    using u(1) r(1) step(1) by simp
  have same: "dev_scores s2 = dev_scores st" "max_f1 s2 = max_f1 st"
    using step(1) by (simp_all add: report_frame [OF step(3)] update_frame)
  have sc: "step_count s' = step_count s2" if "evaluate_dev cfg ev epo s2 = Inr s'" for s'
    using that by (rule evaluate_dev_frame)
  from evaluate_dev_events [OF step(4)] show ?thesis
  proof
    assume a: "dev_scores st' = dev_scores s2 \<and> trace st' = trace s2"
    then have "new_events st st' = [Forward (forward_calls st), Backward] @ u @ r"
      using t2 by (intro new_events_append) simp
    then show ?thesis using a same u(2) r(2) by simp
  next
    assume "\<exists>f1. ev (length (dev_scores s2)) = Inr f1 \<and> dev_scores st' = dev_scores s2 @ [f1] \<and>
        trace st' = trace s2 @ Evaluate Dev (step_count s2) #
          (if f1 > max_f1 s2 then [SaveModelCheckpoint (step_count s2) epo] else [])"
    then obtain f1 where f: "ev (length (dev_scores s2)) = Inr f1"
      "dev_scores st' = dev_scores s2 @ [f1]"
      "trace st' = trace s2 @ Evaluate Dev (step_count s2) #
          (if f1 > max_f1 s2 then [SaveModelCheckpoint (step_count s2) epo] else [])"
      by blast
    have "new_events st st' = [Forward (forward_calls st), Backward] @ u @ r @
        Evaluate Dev (step_count s2) #
          (if f1 > max_f1 s2 then [SaveModelCheckpoint (step_count s2) epo] else [])"
      using t2 f(3) by (intro new_events_append) simp
    then have "filter is_eval_or_save (new_events st st') =
        Evaluate Dev (step_count st') #
          (if f1 > max_f1 st then [SaveModelCheckpoint (step_count st') epo] else [])"
      using u(2) r(2) same sc [OF step(4)] by simp
    then show ?thesis using f(1,2) same by auto
  qed
qed

lemma body_history:
  assumes "batch_body fl cfg ml ev epo st = Inr st'"
  shows "\<exists>added. loss_history st' = loss_history st @ added \<and>
     length added = count_list (new_events st st') OptimizerStep \<and> length added \<le> 1"
  using assms
proof (cases rule: body_cases)
  case accumulate
  then show ?thesis by (simp add: new_events_def)
next
  case (step s1 s2)
  obtain u where u: "trace (update fl cfg s1) = trace s1 @ u" "count_list u OptimizerStep = 1"
    using update_events by blast
  obtain r where r: "trace s2 = trace (update fl cfg s1) @ r" "count_list r OptimizerStep = 0"
    using report_events [OF step(3)] by blast
  obtain e where e: "trace st' = trace s2 @ e" "count_list e OptimizerStep = 0"
    using evaluate_dev_events [OF step(4)] by (auto split: if_splits)
  have "trace st' = trace st @ ([Forward (forward_calls st), Backward] @ u @ r @ e)"
    using u(1) r(1) e(1) step(1) by simp
  then have "new_events st st' = [Forward (forward_calls st), Backward] @ u @ r @ e"
    by (rule new_events_append)
  then have "count_list (new_events st st') OptimizerStep = 1"
    using u(2) r(2) e(2) by simp
  moreover have "loss_history st' = loss_history st @ [np_sum fl (loss_during_accum s1)]"
    using step(1) by (simp add: evaluate_dev_frame [OF step(4)] report_frame [OF step(3)] update_frame)
  ultimately show ?thesis by simp
qed

text \<open>
  Once an evaluation has been made and no score is negative, the running best is the
  maximum of the earlier scores alone.
\<close>

lemma running_best_nonneg:
  assumes "xs \<noteq> []" "\<forall>x\<in>set xs. (0::real) \<le> x"
  shows "Max (set (0 # xs)) = Max (set xs)"
proof -
  have "Max (insert 0 (set xs)) = max 0 (Max (set xs))"
    using assms(1) by (intro Max_insert) simp_all
  moreover have "0 \<le> Max (set xs)"
    using assms by (meson List.finite_set Max_ge_iff last_in_set set_empty)
  ultimately show ?thesis by simp
qed

lemma reach_max_f1:
  assumes "micro_steps fl cfg ml ev es (init_state s0) = Inr st"
  shows "max_f1 st = Max (set (0 # dev_scores st))"
  by (rule micro_steps_invariant [OF assms, where P = "\<lambda>s. max_f1 s = Max (set (0 # dev_scores s))"])
     (simp_all add: init_state_def body_max_f1)

lemma reach_windows:
  assumes "0 < k" "gradient_accumulation_steps cfg = int k"
    and "micro_steps fl cfg ml ev es (init_state s0) = Inr st"
  shows "windows_inv fl ml k s0 st \<and> forward_calls st = length es"
  using micro_steps_windows_inv [OF assms windows_inv_init] by (simp add: init_state_def)

lemma reach_steps:
  assumes "micro_steps fl cfg ml ev es (init_state s0) = Inr st"
  shows "count_list (trace st) OptimizerStep = length (loss_history st)"
  by (rule micro_steps_invariant [OF assms,
          where P = "\<lambda>s. count_list (trace s) OptimizerStep = length (loss_history s)"])
     (simp_all add: init_state_def body_history_steps [symmetric])

lemma filter_report [simp]:
  "filter is_step_or_eval (xs @ [Report a b]) = filter is_step_or_eval xs"
  by simp

lemma body_one:
  assumes "gradient_accumulation_steps cfg = 1" "report_frequency cfg \<noteq> 0"
    "eval_frequency cfg = 2" "loss_during_accum st = []"
    "even (step_count st) \<or> ev (length (dev_scores st)) = Inr f1"
  shows "\<exists>st'. batch_body fl cfg ml ev epo st = Inr st' \<and> loss_during_accum st' = [] \<and>
     step_count st' = step_count st + 1 \<and>
     dev_scores st' = (if even (step_count st) then dev_scores st else dev_scores st @ [f1]) \<and>
     filter is_step_or_eval (trace st') = filter is_step_or_eval (trace st) @
       OptimizerStep # (if even (step_count st) then [] else [Evaluate Dev (step_count st + 1)])"
proof -
  define s1 where "s1 = update fl cfg (st\<lparr>forward_calls := Suc (forward_calls st),
        loss_during_accum := loss_during_accum st @ [quotient fl (ml (forward_calls st)) 1],
        trace := trace st @ [Forward (forward_calls st), Backward]\<rparr>)"
  have b: "batch_body fl cfg ml ev epo st =
      (case report fl cfg s1 of Inl e \<Rightarrow> Inl e | Inr st2 \<Rightarrow> evaluate_dev cfg ev epo st2)"
    using assms(1,4) by (simp add: batch_body_def Let_def s1_def)
  have s1: "step_count s1 = step_count st + 1" "loss_during_accum s1 = []"
    "dev_scores s1 = dev_scores st"
    "filter is_step_or_eval (trace s1) = filter is_step_or_eval (trace st) @ [OptimizerStep]"
    by (simp_all add: s1_def update_def Let_def split: option.splits)
  obtain s2 where s2: "report fl cfg s1 = Inr s2" "step_count s2 = step_count s1"
    "loss_during_accum s2 = []" "dev_scores s2 = dev_scores s1"
    "filter is_step_or_eval (trace s2) = filter is_step_or_eval (trace s1)"
    using assms(2) s1(2) by (cases "step_count s1 mod report_frequency cfg = 0")
      (simp_all add: report_def)
  show ?thesis
  proof (cases "even (step_count st)")
    case True
    then have "step_count s2 mod 2 \<noteq> 0" using s2(2) s1(1) by presburger
    then have "evaluate_dev cfg ev epo s2 = Inr s2"
      using assms(3) by (simp add: evaluate_dev_def)
    then show ?thesis using b s2 s1 True by simp
  next
    case False
    then have m: "step_count s2 mod 2 = 0" using s2(2) s1(1) by presburger
    have f: "ev (length (dev_scores s2)) = Inr f1"
      using assms(5) False s2(4) s1(3) by simp
    obtain s3 where s3: "evaluate_dev cfg ev epo s2 = Inr s3" "step_count s3 = step_count s2"
      "loss_during_accum s3 = []" "dev_scores s3 = dev_scores s2 @ [f1]"
      "filter is_step_or_eval (trace s3) =
         filter is_step_or_eval (trace s2) @ [Evaluate Dev (step_count s2)]"
      using assms(3) m f s2(3)
      by (cases "f1 > max_f1 s2") (simp_all add: evaluate_dev_def Let_def)
    then show ?thesis using b s2 s1 False by simp
  qed
qed

lemmas run_defs = batch_body_def update_def report_def evaluate_dev_def init_state_def
  Let_def scenario_cfg_def accum_cfg_def unit_loss_def rising_f1_def exact_ops_def

section \<open>The claims about the epoch loop\<close>

text \<open>
  Claim C1, as amended. Take any point of the epoch loop (the state \<open>st\<close> reached after
  any number of mini-batches of a run) and the next mini-batch. The running best
  \<open>max_f1\<close> is the maximum of its initial value 0 and the dev scores of all earlier
  evaluations of the run. Either the mini-batch evaluates nothing and writes no
  checkpoint, or it runs one dev evaluation, at the step just reached, and a checkpoint is
  written right after it, for that step, if and only if the score strictly exceeds that
  maximum; so a score of zero, or one that does not exceed the running best, writes none.
\<close>

theorem checkpoint_iff_new_best:
  assumes "micro_steps fl cfg ml ev es (init_state s0) = Inr st"
    and "batch_body fl cfg ml ev epo st = Inr st'"
  shows "max_f1 st = Max (set (0 # dev_scores st)) \<and>
     ((dev_scores st' = dev_scores st \<and> filter is_eval_or_save (new_events st st') = []) \<or>
      (\<exists>f1. ev (length (dev_scores st)) = Inr f1 \<and> dev_scores st' = dev_scores st @ [f1] \<and>
         filter is_eval_or_save (new_events st st') =
           Evaluate Dev (step_count st') #
             (if f1 > Max (set (0 # dev_scores st))
              then [SaveModelCheckpoint (step_count st') epo] else [])))"
  using reach_max_f1 [OF assms(1)] body_eval [OF assms(2)] by simp

text \<open>
  The witness is the fourth mini-batch of a run that evaluates every second step: the
  evaluation at step 2 returned 1/10, the one at step 4 returns 2/10, which exceeds it.
\<close>

theorem checkpoint_iff_new_best_witness:
  "\<exists>st st'.
     micro_steps exact_ops scenario_cfg unit_loss rising_f1 [0, 0, 0] (init_state 0) = Inr st \<and>
     batch_body exact_ops scenario_cfg unit_loss rising_f1 0 st = Inr st' \<and>
     max_f1 st = Max (set (0 # dev_scores st)) \<and> dev_scores st = [1 / 10] \<and>
     dev_scores st' = [1 / 10, 2 / 10] \<and>
     filter is_eval_or_save (new_events st st') = [Evaluate Dev 4, SaveModelCheckpoint 4 0]"
proof -
  define r where
    "r = micro_steps exact_ops scenario_cfg unit_loss rising_f1 [0, 0, 0] (init_state 0)"
  define r' where "r' = batch_body exact_ops scenario_cfg unit_loss rising_f1 0 (projr r)"
  have h: "r = Inr (projr r)" unfolding r_def by (simp add: run_defs)
  have h': "r' = Inr (projr r')" unfolding r'_def r_def by (simp add: run_defs)
  have d: "dev_scores (projr r) = [1 / 10]" "dev_scores (projr r') = [1 / 10, 2 / 10]"
    "step_count (projr r') = 4"
    unfolding r'_def r_def by (simp_all add: run_defs)
  from checkpoint_iff_new_best [OF h [unfolded r_def] h' [unfolded r'_def r_def]]
  have "max_f1 (projr r) = Max (set (0 # dev_scores (projr r)))"
    and "filter is_eval_or_save (new_events (projr r) (projr r')) =
      [Evaluate Dev 4, SaveModelCheckpoint 4 0]"
    using d unfolding r_def r'_def by auto
  then show ?thesis using h h' d unfolding r_def r'_def by blast
qed

text \<open>
  The claim as stated, a checkpoint whenever the score strictly exceeds the maximum of
  the earlier scores, fails for scores below the initial best: with 8 examples the
  scenario evaluates at steps 2 and 4; the scores are -2 and then -1, which exceeds -2,
  and no checkpoint is written at either step.
\<close>

theorem negative_scores_counterexample:
  "scores_and_saves (train_loop exact_ops scenario_cfg 8 unit_loss negative_f1 0 0) =
     Inr ([- 2, - 1], [Evaluate Dev 2, Evaluate Dev 4])"
proof -
  have s: "schedule 0 1 4 = [0, 0, 0, 0]"
    by (simp add: schedule_def numeral_eq_Suc)
  show ?thesis
    by (simp add: scores_and_saves_def train_loop_def epoch_loop_def batches_per_epoch_def s
        run_defs negative_f1_def)
qed

text \<open>
  Claim C2, as amended. With \<open>num_epochs = 1\<close>, \<open>batch_size = 2\<close>, four training
  examples, \<open>gradient_accumulation_steps = 1\<close> and \<open>eval_frequency = 2\<close> (a report
  frequency that is not zero, and an evaluator that returns a score), the loop performs
  exactly 2 optimizer steps and exactly 1 evaluation. The evaluation is keyed on the
  scheduler's counter, so it comes after the 2nd optimizer step when the counter is even
  on entry (0, say), and after the 1st when it is odd on entry.
\<close>

theorem scenario_steps_and_evaluation:
  assumes "num_epochs cfg = 1" "batch_size cfg = 2" "gradient_accumulation_steps cfg = 1"
    "eval_frequency cfg = 2" "report_frequency cfg \<noteq> 0" "ev 0 = Inr f1"
  shows "observed (train_loop fl cfg 4 ml ev 0 s0) =
     Inr (if even s0 then [OptimizerStep, OptimizerStep, Evaluate Dev (s0 + 2)]
          else [OptimizerStep, Evaluate Dev (s0 + 1), OptimizerStep])"
proof -
  have i: "loss_during_accum (init_state s0) = []" "step_count (init_state s0) = s0"
    "dev_scores (init_state s0) = []" "filter is_step_or_eval (trace (init_state s0)) = []"
    by (simp_all add: init_state_def)
  have "even (step_count (init_state s0)) \<or> ev (length (dev_scores (init_state s0))) = Inr f1"
    using assms(6) i by simp
  from body_one [where st = "init_state s0" and ev = ev and ?f1.0 = f1 and ml = ml and epo = 0
      and fl = fl, OF assms(3,5,4) i(1) this]
  obtain st1 where st1: "batch_body fl cfg ml ev 0 (init_state s0) = Inr st1"
    "loss_during_accum st1 = []" "step_count st1 = s0 + 1"
    "dev_scores st1 = (if even s0 then [] else [f1])"
    "filter is_step_or_eval (trace st1) =
       OptimizerStep # (if even s0 then [] else [Evaluate Dev (s0 + 1)])"
    using i by auto
  have "even (step_count st1) \<or> ev (length (dev_scores st1)) = Inr f1"
    using st1(3,4) assms(6) by auto
  from body_one [where st = st1 and ev = ev and ?f1.0 = f1 and ml = ml and epo = 0
      and fl = fl, OF assms(3,5,4) st1(2) this]
  obtain st2 where st2: "batch_body fl cfg ml ev 0 st1 = Inr st2"
    "filter is_step_or_eval (trace st2) = filter is_step_or_eval (trace st1) @
       OptimizerStep # (if even (step_count st1) then [] else [Evaluate Dev (step_count st1 + 1)])"
    by auto
  have "train_loop fl cfg 4 ml ev 0 s0 = Inr st2"
    using assms(1,2,3) st1(1) st2(1)
    by (simp add: train_loop_def epoch_loop_def batches_per_epoch_def schedule_scn)
  then show ?thesis using st2(2) st1(3,5) by (auto simp: observed_def)
qed

theorem scenario_steps_and_evaluation_witness:
  "observed (train_loop exact_ops scenario_cfg 4 unit_loss rising_f1 0 0) =
     Inr [OptimizerStep, OptimizerStep, Evaluate Dev 2]"
  using scenario_steps_and_evaluation [where cfg = scenario_cfg and ev = rising_f1
      and ?f1.0 = "1 / 10" and fl = exact_ops and ml = unit_loss and ?s0.0 = 0]
  by (simp add: scenario_cfg_def rising_f1_def)

text \<open>
  The claim as stated, with the evaluation after the 2nd optimizer step and not after the
  1st, fails when the scheduler's counter is 1 on entry: the evaluation follows the 1st
  optimizer step.
\<close>

theorem evaluation_after_first_step_counterexample:
  "observed (train_loop exact_ops scenario_cfg 4 unit_loss rising_f1 0 1) =
     Inr [OptimizerStep, Evaluate Dev 2, OptimizerStep]"
  by (simp add: observed_def train_loop_def epoch_loop_def scenario_cfg_def
      batches_per_epoch_def schedule_scn batch_body_def update_def report_def
      evaluate_dev_def init_state_def Let_def unit_loss_def rising_f1_def exact_ops_def)

text \<open>
  Claim C3. For every \<open>gradient_accumulation_steps = k > 1\<close>, after any number \<open>N\<close>
  of mini-batches the scheduler's counter has advanced by \<open>N div k\<close>, one per \<open>k\<close>
  consecutive mini-batches, as many optimizer steps have been made, and the entry of
  \<open>loss_history\<close> for the \<open>j\<close>-th completed window is the sum, as \<open>np.sum\<close> computes
  it, of the \<open>k\<close> losses of that window, each the model's loss divided by \<open>k\<close> as line
  152 divides it. The statement holds for whatever floats the division and the sum
  return.
\<close>

theorem accumulation_windows:
  assumes "1 < k" "gradient_accumulation_steps cfg = int k"
    and "micro_steps fl cfg ml ev es (init_state s0) = Inr st"
  shows "step_count st = s0 + int (length es div k) \<and>
     count_list (trace st) OptimizerStep = length es div k \<and>
     loss_history st = map (\<lambda>j. np_sum fl (window_losses fl ml k j)) [0..<length es div k]"
proof -
  have "0 < k" using assms(1) by simp
  from reach_windows [OF this assms(2,3)] reach_steps [OF assms(3)]
  show ?thesis by (simp add: windows_inv_def)
qed

theorem accumulation_windows_witness:
  "\<exists>st.
     micro_steps exact_ops accum_cfg unit_loss rising_f1 [0, 0, 0, 0, 0] (init_state 0) =
       Inr st \<and>
     step_count st = 2 \<and> count_list (trace st) OptimizerStep = 2 \<and>
     loss_history st = [3 / 2, 7 / 2]"
proof -
  define r where
    "r = micro_steps exact_ops accum_cfg unit_loss rising_f1 [0, 0, 0, 0, 0] (init_state 0)"
  have g: "gradient_accumulation_steps accum_cfg = int 2"
    by (simp add: accum_cfg_def scenario_cfg_def)
  have h: "r = Inr (projr r)" unfolding r_def by (simp add: run_defs)
  have u: "[0..<length [0::int, 0, 0, 0, 0] div 2] = [0, 1]" "[0 * 2..<0 * 2 + 2] = [0::nat, 1]"
    "[1 * 2..<1 * 2 + 2] = [2::nat, 3]"
    by code_simp+
  have w: "map (\<lambda>j. np_sum exact_ops (window_losses exact_ops unit_loss 2 j))
        [0..<length [0::int, 0, 0, 0, 0] div 2] = [3 / 2, 7 / 2]"
    unfolding u(1) by (simp add: window_losses_def unit_loss_def u(2,3) exact_ops_def)
  from accumulation_windows [OF _ g h [unfolded r_def]] h w show ?thesis
    unfolding r_def by auto
qed

text \<open>
  Claim C4, as amended. With \<open>gradient_accumulation_steps = 1\<close> the optimizer steps
  exactly once per mini-batch: after \<open>N\<close> mini-batches it has made \<open>N\<close> steps, and the
  global step, which is the scheduler's counter, equals its value on entry plus \<open>N\<close>.
\<close>

theorem one_step_per_batch:
  assumes "gradient_accumulation_steps cfg = 1"
    and "micro_steps fl cfg ml ev es (init_state s0) = Inr st"
  shows "count_list (trace st) OptimizerStep = length es \<and>
     step_count st = s0 + int (length es)"
proof -
  have "gradient_accumulation_steps cfg = int 1" using assms(1) by simp
  from reach_windows [OF _ this assms(2)] reach_steps [OF assms(2)]
  show ?thesis by (simp add: windows_inv_def)
qed

theorem one_step_per_batch_witness:
  "\<exists>st. micro_steps exact_ops scenario_cfg unit_loss rising_f1 [0, 0, 0] (init_state 5) = Inr st \<and>
     count_list (trace st) OptimizerStep = 3 \<and> step_count st = 8"
proof -
  define r where "r = micro_steps exact_ops scenario_cfg unit_loss rising_f1 [0, 0, 0] (init_state 5)"
  have g: "gradient_accumulation_steps scenario_cfg = 1" by (simp add: scenario_cfg_def)
  have h: "r = Inr (projr r)" unfolding r_def by (simp add: run_defs)
  from one_step_per_batch [OF g h [unfolded r_def]] h show ?thesis
    unfolding r_def by auto
qed

text \<open>
  The claim as stated, a global step equal to \<open>N\<close>, fails when the counter is not 0 on
  entry: started at 1, the counter is 3 after the 2 mini-batches of the scenario.
\<close>

theorem global_step_counterexample:
  "batches_and_step (train_loop exact_ops scenario_cfg 4 unit_loss rising_f1 0 1) = Inr (2, 3)"
  by (simp add: batches_and_step_def train_loop_def epoch_loop_def batches_per_epoch_def
      schedule_scn run_defs)

text \<open>
  Claim C10. At every point of the epoch loop the length of \<open>loss_history\<close> equals
  the number of \<open>optimizer.step()\<close> calls made since training started, and a mini-batch
  appends to it one entry when it makes an optimizer step and leaves it as it is
  otherwise.
\<close>

theorem loss_history_one_entry_per_step:
  assumes "micro_steps fl cfg ml ev es (init_state s0) = Inr st"
    and "batch_body fl cfg ml ev epo st = Inr st'"
  shows "length (loss_history st) = count_list (trace st) OptimizerStep \<and>
     (\<exists>added. loss_history st' = loss_history st @ added \<and>
        length added = count_list (new_events st st') OptimizerStep \<and> length added \<le> 1)"
proof -
  have "length (loss_history st) = count_list (trace st) OptimizerStep"
    by (rule micro_steps_invariant [OF assms(1),
          where P = "\<lambda>s. length (loss_history s) = count_list (trace s) OptimizerStep"])
       (simp_all add: init_state_def body_history_steps)
  then show ?thesis using body_history [OF assms(2)] by simp
qed

theorem loss_history_one_entry_per_step_witness:
  "\<exists>st st'. micro_steps exact_ops accum_cfg unit_loss rising_f1 [0, 0, 0] (init_state 0) = Inr st \<and>
     batch_body exact_ops accum_cfg unit_loss rising_f1 0 st = Inr st' \<and>
     length (loss_history st) = count_list (trace st) OptimizerStep \<and>
     loss_history st = [3 / 2] \<and> loss_history st' = [3 / 2, 7 / 2]"
proof -
  define r where "r = micro_steps exact_ops accum_cfg unit_loss rising_f1 [0, 0, 0] (init_state 0)"
  define r' where "r' = batch_body exact_ops accum_cfg unit_loss rising_f1 0 (projr r)"
  have h: "r = Inr (projr r)" unfolding r_def by (simp add: run_defs)
  have h': "r' = Inr (projr r')" unfolding r'_def r_def by (simp add: run_defs)
  have d: "loss_history (projr r) = [3 / 2]" "loss_history (projr r') = [3 / 2, 7 / 2]"
    unfolding r'_def r_def by (simp_all add: run_defs)
  from loss_history_one_entry_per_step [OF h [unfolded r_def] h' [unfolded r'_def r_def]]
  have "length (loss_history (projr r)) = count_list (trace (projr r)) OptimizerStep"
    unfolding r_def by simp
  then show ?thesis using h h' d unfolding r_def r'_def by blast
qed

section \<open>Construction, optimizer and checkpoints\<close>

lemma contains_sublist: "contains nd n \<longleftrightarrow> sublist nd n"
  by (induction n) (auto simp: sublist_Cons_right)

lemma any_no_decay_iff: "any_no_decay n \<longleftrightarrow> (\<exists>nd\<in>set no_decay. sublist nd n)"
  by (simp add: any_no_decay_def list_ex_iff contains_sublist)

lemma lower_pos: "lower ''pos'' = ''pos''" "lower ''NER'' = ''ner''" "lower ''adamw'' = ''adamw''"
  by (simp_all add: lower_def lower_char_def)

lemma scenario_names:
  "any_no_decay ''encoder.layer.0.bias''" "\<not> any_no_decay ''encoder.layer.0.weight''"
  by (simp_all add: any_no_decay_def no_decay_def)




lemma get_optimizer_returns:
  assumes "lower (optimizer cfg) = ''adamw''" "0 \<le> plm_learning_rate cfg" "0 \<le> adam_eps cfg"
    "fusable w"
  shows "get_optimizer cfg w =
     Inr \<lparr>param_groups = grouped_param cfg w, default_lr = plm_learning_rate cfg,
          eps = adam_eps cfg, fused = True, opt_state = []\<rparr>"
  using assms by (simp add: get_optimizer_def Let_def not_less [symmetric])

text \<open>
  With the evaluator of \<open>Runner\<close> itself, which a task's runner is to override, the
  first evaluation raises.
\<close>

lemma base_evaluate_raises:
  assumes "eval_frequency cfg \<noteq> 0" "step_count st mod eval_frequency cfg = 0"
  shows "evaluate_dev cfg Runner_evaluate epo st = Inl NotImplementedError"
  using assms by (simp add: evaluate_dev_def Runner_evaluate_def)

text \<open>
  Line 230 is reached whenever the loop returns, and raises there: the suffix of the best
  checkpoint is built with \<open>+\<close> from a string and the integer \<open>best_ckpt_step_count\<close>
  (\<open>save_model_checkpoint\<close> formats the step into the file name with an f-string). The
  reload and the final evaluation that follow it are not reached, whatever the file
  system holds and whatever the evaluator would return.
\<close>

lemma train_stops_after_the_loop:
  assumes "train_setup fl ext r w continued n_train = Inr r1"
    and "self_scheduler r1 = Some sch" "self_optimizer r1 = Some opt"
    and "train_loop fl (config r1) n_train model_loss dev_f1 start_epoch
           (sched_step_count (sched_state sch)) = Inr st"
  shows "train fl ext r e w continued start_epoch n_train model_loss dev_f1 final_eval
     = Inl TypeError"
  using assms by (simp add: train_def str_add_int_def)

text \<open>
  No run of \<open>train\<close> returns: with every exception of the loop set aside, line 230
  remains.
\<close>

lemma train_never_returns:
  "train fl ext r e w continued start_epoch n_train model_loss dev_f1 final_eval \<noteq> Inr res"
  by (auto simp: train_def str_add_int_def split: sum.splits option.splits)

text \<open>
  What lines 231 to 241 would do, were they reached with an evaluator that returns: four
  evaluations, and a file for each split but the train split.
\<close>

lemma final_evaluation_outputs:
  assumes "final_eval Test = Inr metrics" "final_eval Seen = Inr seen_metrics"
    "final_eval Unseen = Inr unseen_metrics" "final_eval Train = Inr train_metrics"
  shows "final_evaluation cfg final_eval =
     Inr [EvaluateSplit Test (- 1),
          MetricsFile (join (log_dir cfg) ''metrics.json'') [(''test_metrics'', metrics)],
          EvaluateSplit Seen (- 1),
          MetricsFile (join (log_dir cfg) ''metricsSeen.json'') [(''test_metrics'', seen_metrics)],
          EvaluateSplit Unseen (- 1),
          MetricsFile (join (log_dir cfg) ''metricsUnseen.json'')
            [(''test_metrics'', unseen_metrics)],
          EvaluateSplit Train (- 1)]"
  using assms by (simp add: final_evaluation_def)

section \<open>The claims about construction, optimizer and checkpoints\<close>




text \<open>
  Claim C6, as amended. For a configuration whose task, in lower case, is none of
  \<open>coref\<close>, \<open>ner\<close> and \<open>ere\<close>, the construction of the Runner raises nothing on account
  of the task. It raises only where it does for every task, when the log file cannot be
  opened because the log directory is missing. Otherwise it returns a Runner whose
  \<open>data\<close>, \<open>collate_fn\<close> and \<open>wrapper_class_fn\<close> are not set, and the failure comes at
  their first use, as the \<open>AttributeError\<close> of \<open>initialize_model\<close> or of \<open>train\<close>.
\<close>

theorem unknown_task_is_not_refused:
  assumes "lower (task cfg) \<notin> {''coref'', ''ner'', ''ere''}"
  shows "(log_dir cfg \<noteq> [] \<and> \<not> dir_exists (log_dir cfg) \<longrightarrow>
            (Runner_init dir_exists cfg config_name now gpu seed_arg
               :: error + ('p, 's) runner) = Inl FileNotFoundError) \<and>
         (log_dir cfg = [] \<or> dir_exists (log_dir cfg) \<longrightarrow>
            (\<exists>r :: ('p, 's) runner.
               Runner_init dir_exists cfg config_name now gpu seed_arg = Inr r \<and>
               config r = cfg \<and> data r = None \<and> collate_fn r = None \<and>
               wrapper_class_fn r = None \<and>
               initialize_model fl ext r n_train e w saved_suffix continue_training =
                 Inl AttributeError \<and>
               train fl ext r e w continued start_epoch n_train model_loss dev_f1
                 (final_eval :: split \<Rightarrow> error + 'm) = Inl AttributeError))"
  using assms
  by (auto simp: Runner_init_def Let_def initialize_model_def train_def train_setup_def)

theorem unknown_task_is_not_refused_witness:
  "\<exists>r :: (nat, nat) runner.
     Runner_init only_logs pos_cfg ''pos'' ''Aug14_19-53-06'' (Some 0) None = Inr r \<and>
     wrapper_class_fn r = None \<and>
     initialize_model exact_ops demo_ext r 4 empty_env two_param_wrapper None False =
       Inl AttributeError"
proof -
  have u: "lower (task pos_cfg) \<notin> {''coref'', ''ner'', ''ere''}"
    by (simp add: pos_cfg_def scenario_cfg_def lower_pos)
  have d: "log_dir pos_cfg = [] \<or> only_logs (log_dir pos_cfg)"
    by (simp add: pos_cfg_def scenario_cfg_def only_logs_def)
  from unknown_task_is_not_refused [OF u, where ?'p = nat and ?'s = nat and ?'m = nat
      and dir_exists = only_logs and config_name = "''pos''" and now = "''Aug14_19-53-06''"
      and gpu = "Some 0" and seed_arg = None and fl = exact_ops and ext = demo_ext
      and n_train = 4 and e = empty_env and w = two_param_wrapper and saved_suffix = None
      and continue_training = False] d
  show ?thesis by blast
qed

text \<open>
  The claim as stated, a construction that fails, is false for the task \<open>pos\<close> with the
  log directory in place: the constructor returns a Runner, with no data processor.
\<close>

theorem unknown_task_counterexample:
  "map_sum id data
     (Runner_init only_logs pos_cfg ''pos'' ''Aug14_19-53-06'' (Some 0) None
        :: error + (nat, nat) runner)
   = Inr None"
  by (simp add: Runner_init_def pos_cfg_def scenario_cfg_def lower_pos Let_def only_logs_def)

text \<open>
  Claim C7 is what the code is written to do and does not do. On the scenario (the task
  \<open>ner\<close>, one epoch, four examples in batches of 2, an evaluation every second step, a
  new scheduler whose counter is 1) the epoch loop finishes, with a checkpoint written at
  step 2, and \<open>train\<close> then raises \<open>TypeError\<close> at line 230: nothing is reloaded, no
  split is evaluated and no metrics file is written.
\<close>

theorem train_raises_type_error:
  "train exact_ops demo_ext ner_runner saved_env two_param_wrapper False 0 4 unit_loss
     rising_f1 split_report = Inl TypeError"
proof -
  obtain r1 :: "(nat, nat) runner" and sch opt where s:
    "train_setup exact_ops demo_ext ner_runner two_param_wrapper False 4 = Inr r1"
    "self_scheduler r1 = Some sch" "self_optimizer r1 = Some opt" "config r1 = scenario_cfg"
    "sched_step_count (sched_state sch) = 1"
    by (simp add: train_setup_def ner_runner_def scenario_cfg_def get_optimizer_def
        get_scheduler_def grouped_param_def Let_def lower_pos demo_ext_def new_lambda_lr_def
        two_param_wrapper_def)
  define res where "res = train_loop exact_ops scenario_cfg 4 unit_loss rising_f1 0 1"
  have "res = Inr (projr res)"
    unfolding res_def
    by (simp add: train_loop_def epoch_loop_def batches_per_epoch_def schedule_scn run_defs)
  then have "train_loop exact_ops (config r1) 4 unit_loss rising_f1 0
      (sched_step_count (sched_state sch)) = Inr (projr res)"
    using s(4,5) by (simp add: res_def)
  from train_stops_after_the_loop [OF s(1,2,3) this] show ?thesis .
qed

text \<open>
  Claim C8. \<open>get_optimizer\<close> builds exactly three parameter groups: the encoder
  parameters whose name contains none of the no-decay substrings, with the encoder
  learning rate and the configured weight decay; the encoder parameters whose name
  contains one of them, with the encoder learning rate and no weight decay; and every
  parameter of the task head, with the task learning rate and no weight decay. Every
  encoder parameter is in the group its name selects, the two encoder groups together
  have as many parameters as the encoder, and \<open>bias\<close> is one of the substrings. For the
  optimizer \<open>adamw\<close>, with a learning rate and an epsilon that are not negative and
  parameters torch can fuse, \<open>get_optimizer\<close> returns, and the optimizer it returns has
  these three groups; whenever it returns, it is with these groups. Containment is that of \<open>sublist\<close>: the name is
  some prefix, then the substring, then some suffix.
\<close>

theorem optimizer_groups:
  "grouped_param cfg w =
     [\<lparr>params = map snd (filter (\<lambda>np. \<not> (\<exists>nd\<in>set no_decay. sublist nd (fst np))) (plm_param w)),
       lr = plm_learning_rate cfg, weight_decay = adam_weight_decay cfg\<rparr>,
      \<lparr>params = map snd (filter (\<lambda>np. \<exists>nd\<in>set no_decay. sublist nd (fst np)) (plm_param w)),
       lr = plm_learning_rate cfg, weight_decay = 0\<rparr>,
      \<lparr>params = map snd (task_param w), lr = task_learning_rate cfg, weight_decay = 0\<rparr>] \<and>
   (\<forall>np\<in>set (plm_param w).
      if \<exists>nd\<in>set no_decay. sublist nd (fst np)
      then snd np \<in> set (params (grouped_param cfg w ! 1))
      else snd np \<in> set (params (grouped_param cfg w ! 0))) \<and>
   length (params (grouped_param cfg w ! 0)) + length (params (grouped_param cfg w ! 1)) =
     length (plm_param w) \<and>
   ''bias'' \<in> set no_decay \<and>
   (lower (optimizer cfg) = ''adamw'' \<and> 0 \<le> plm_learning_rate cfg \<and> 0 \<le> adam_eps cfg \<and>
    fusable w \<longrightarrow>
      (\<exists>opt :: ('a, 's) adamw.
         get_optimizer cfg w = Inr opt \<and> param_groups opt = grouped_param cfg w \<and>
         length (param_groups opt) = 3)) \<and>
   (\<forall>opt. get_optimizer cfg w = (Inr opt :: error + ('a, 's) adamw) \<longrightarrow>
      param_groups opt = grouped_param cfg w)"
proof -
  let ?nd = "\<lambda>np :: string \<times> 'a. \<exists>nd\<in>set no_decay. sublist nd (fst np)"
  have eq: "any_no_decay (fst np) = ?nd np" for np :: "string \<times> 'a"
    by (rule any_no_decay_iff)
  have g: "grouped_param cfg w =
     [\<lparr>params = map snd (filter (\<lambda>np. \<not> ?nd np) (plm_param w)),
       lr = plm_learning_rate cfg, weight_decay = adam_weight_decay cfg\<rparr>,
      \<lparr>params = map snd (filter ?nd (plm_param w)),
       lr = plm_learning_rate cfg, weight_decay = 0\<rparr>,
      \<lparr>params = map snd (task_param w), lr = task_learning_rate cfg, weight_decay = 0\<rparr>]"
    unfolding grouped_param_def eq ..
  have m: "\<forall>np\<in>set (plm_param w).
      if ?nd np then snd np \<in> set (params (grouped_param cfg w ! 1))
      else snd np \<in> set (params (grouped_param cfg w ! 0))"
    unfolding g by (auto simp del: bex_simps ball_simps)
  have l: "length (params (grouped_param cfg w ! 0)) + length (params (grouped_param cfg w ! 1)) =
      length (plm_param w)"
    unfolding g using sum_length_filter_compl [of ?nd "plm_param w"]
    by (simp add: add.commute del: bex_simps ball_simps)
  have b: "''bias'' \<in> set no_decay" by (simp add: no_decay_def)
  have r: "lower (optimizer cfg) = ''adamw'' \<and> 0 \<le> plm_learning_rate cfg \<and> 0 \<le> adam_eps cfg \<and>
      fusable w \<longrightarrow>
      (\<exists>opt :: ('a, 's) adamw.
         get_optimizer cfg w = Inr opt \<and> param_groups opt = grouped_param cfg w \<and>
         length (param_groups opt) = 3)"
    by (auto simp: get_optimizer_returns) (simp add: grouped_param_def)
  have o: "\<forall>opt. get_optimizer cfg w = (Inr opt :: error + ('a, 's) adamw) \<longrightarrow>
      param_groups opt = grouped_param cfg w"
    by (auto simp: get_optimizer_def Let_def split: if_splits)
  from g m l b r o show ?thesis by blast
qed

theorem optimizer_groups_witness:
  "\<exists>opt :: (nat, nat) adamw.
     get_optimizer scenario_cfg two_param_wrapper = Inr opt \<and>
     param_groups opt =
       [\<lparr>params = [2], lr = 5 / 100000, weight_decay = 1 / 100\<rparr>,
        \<lparr>params = [1], lr = 5 / 100000, weight_decay = 0\<rparr>,
        \<lparr>params = [3], lr = 3 / 10000, weight_decay = 0\<rparr>]"
proof -
  have a: "\<exists>nd\<in>set no_decay. sublist nd ''encoder.layer.0.bias''"
    and b: "\<not> (\<exists>nd\<in>set no_decay. sublist nd ''encoder.layer.0.weight'')"
    unfolding any_no_decay_iff [symmetric] by (rule scenario_names)+
  have f: "filter (\<lambda>np. \<exists>nd\<in>set no_decay. sublist nd (fst np)) (plm_param two_param_wrapper) =
      [(''encoder.layer.0.bias'', 1)]"
    "filter (\<lambda>np. \<not> (\<exists>nd\<in>set no_decay. sublist nd (fst np))) (plm_param two_param_wrapper) =
      [(''encoder.layer.0.weight'', 2)]"
    using a b unfolding two_param_wrapper_def by (simp_all del: bex_simps ball_simps)
  have c: "lower (optimizer scenario_cfg) = ''adamw'' \<and> 0 \<le> plm_learning_rate scenario_cfg \<and>
      0 \<le> adam_eps scenario_cfg \<and> fusable two_param_wrapper"
    by (simp add: scenario_cfg_def lower_pos two_param_wrapper_def)
  note t = optimizer_groups [of scenario_cfg two_param_wrapper, where ?'s = nat]
  from t [THEN conjunct1] f
  have g: "grouped_param scenario_cfg two_param_wrapper =
       [\<lparr>params = [2], lr = 5 / 100000, weight_decay = 1 / 100\<rparr>,
        \<lparr>params = [1], lr = 5 / 100000, weight_decay = 0\<rparr>,
        \<lparr>params = [3], lr = 3 / 10000, weight_decay = 0\<rparr>]"
    by (simp add: two_param_wrapper_def scenario_cfg_def)
  from t c obtain opt :: "(nat, nat) adamw" where
    "get_optimizer scenario_cfg two_param_wrapper = Inr opt"
    "param_groups opt = grouped_param scenario_cfg two_param_wrapper"
    by blast
  with g show ?thesis by auto
qed



end
